theory Spec2Isabelle
  imports Main
begin

section \<open>The notebook embedding controller\<close>

text \<open>
  The example consists of one class, \<open>JupyterLab\<close>, whose method \<open>createApp\<close> wires a
  command registry, a keymap, a rendering registry, a document manager, a command palette
  and a split panel together. The toolkit classes themselves are not part of the example;
  what the example does with them (which objects it creates, what it puts into them, in
  which order, and what its arrow functions do when they run) is modelled here as a
  state transformer on a record of the page.
\<close>

subsection \<open>Configuration\<close>

type_synonym IAjaxSettings = string

record IOptions =
  ajaxSettings :: "IAjaxSettings option"
  baseUrl :: "string option"

record JupyterLab =
  NOTEBOOK :: string
  div_id :: string
  serviceManagerOptions :: IOptions

text \<open>
  The constructor overwrites the field initialisers with its arguments; the two optional
  arguments are \<open>None\<close> when absent.
\<close>

definition JupyterLab_new ::
  "string \<Rightarrow> string \<Rightarrow> IAjaxSettings option \<Rightarrow> string option \<Rightarrow> JupyterLab" where
  "JupyterLab_new d n a b =
     \<lparr>NOTEBOOK = n, div_id = d,
      serviceManagerOptions = \<lparr>ajaxSettings = a, baseUrl = b\<rparr>\<rparr>"

record cmdIds_t =
  save :: string
  interrupt :: string
  restart :: string
  switchKernel :: string
  runAndAdvance :: string
  deleteCell :: string
  selectAbove :: string
  selectBelow :: string
  extendAbove :: string
  extendBelow :: string
  editMode :: string
  merge :: string
  split :: string
  commandMode :: string
  undo :: string
  redo :: string

definition cmdIds :: cmdIds_t where
  "cmdIds =
     \<lparr>save = ''notebook:save'',
      interrupt = ''notebook:interrupt-kernel'',
      restart = ''notebook:restart-kernel'',
      switchKernel = ''notebook:switch-kernel'',
      runAndAdvance = ''notebook-cells:run-and-advance'',
      deleteCell = ''notebook-cells:delete'',
      selectAbove = ''notebook-cells:select-above'',
      selectBelow = ''notebook-cells:select-below'',
      extendAbove = ''notebook-cells:extend-above'',
      extendBelow = ''notebook-cells:extend-below'',
      editMode = ''notebook:edit-mode'',
      merge = ''notebook-cells:merge'',
      split = ''notebook-cells:split'',
      commandMode = ''notebook:command-mode'',
      undo = ''notebook-cells:undo'',
      redo = ''notebook-cells:redo''\<rparr>"

text \<open>The values of the map of command ids, in the order of its keys.\<close>

definition cmdIds_values :: "string list" where
  "cmdIds_values =
     [save cmdIds, interrupt cmdIds, restart cmdIds, switchKernel cmdIds,
      runAndAdvance cmdIds, deleteCell cmdIds, selectAbove cmdIds, selectBelow cmdIds,
      extendAbove cmdIds, extendBelow cmdIds, editMode cmdIds, merge cmdIds,
      split cmdIds, commandMode cmdIds, undo cmdIds, redo cmdIds]"

subsection \<open>Arrow functions and the calls they make\<close>

text \<open>
  Every arrow function that \<open>createApp\<close> hands to the toolkit is one constructor of
  \<open>closure\<close>; \<open>run\<close> below gives its body. A body either calls into the toolkit, which is
  recorded in \<open>calls\<close>, or writes the mode property of the notebook widget. What a call
  does inside the toolkit is the toolkit's business: a call that is handed the notebook
  widget, its content, its context or its kernel property may leave the mode and the
  kernel of the widget changed.
\<close>

datatype closure =
    KeydownListener
  | OpenerOpen
  | OnResize
  | ExecSave
  | ExecInterrupt
  | ExecRestart
  | ExecSwitchKernel
  | ExecRunAndAdvance
  | ExecEditMode
  | ExecCommandMode
  | ExecSelectBelow
  | ExecSelectAbove
  | ExecExtendAbove
  | ExecExtendBelow
  | ExecMerge
  | ExecSplit
  | ExecUndo
  | ExecRedo

type_synonym IKernel = string

datatype ext_call =
    Keymap_processKeydownEvent
  | Panel_update
  | Context_save
  | Kernel_interrupt IKernel
  | Call_restartKernel "IKernel option"
  | Call_selectKernelForContext
  | NotebookActions_runAndAdvance "IKernel option"
  | NotebookActions_selectBelow
  | NotebookActions_selectAbove
  | NotebookActions_extendSelectionAbove
  | NotebookActions_extendSelectionBelow
  | NotebookActions_mergeCells
  | NotebookActions_splitCell
  | NotebookActions_undo
  | NotebookActions_redo

subsection \<open>The objects built by \<open>createApp\<close>\<close>

record command =
  label :: string
  execute :: closure

record binding =
  selector :: string
  keys :: "string list"
  command :: string

record palette_item =
  item_command :: string
  item_category :: string

datatype renderer =
    JavascriptRenderer
  | MarkdownRenderer
  | HTMLRenderer
  | ImageRenderer
  | SVGRenderer
  | LatexRenderer
  | TextRenderer

datatype sanitizer = defaultSanitizer

record 'r RenderMime =
  renderers :: "string \<rightharpoonup> 'r"
  order :: "string list"
  sanitizer :: sanitizer

datatype IServiceManager = ServiceManager IOptions

record DocumentManager =
  manager :: IServiceManager
  opener :: closure

record widget_factory_options =
  displayName :: string
  modelName :: string
  fileExtensions :: "string list"
  defaultFor :: "string list"
  preferKernel :: bool
  canStartKernel :: bool

datatype model_factory = NotebookModelFactory

datatype widget_factory = NotebookWidgetFactory

datatype widget = PaletteWidget | NotebookWidget

record SplitPanel =
  panel_id :: string
  orientation :: string
  spacing :: nat
  children :: "widget list"

text \<open>
  The statements of \<open>embedJupyterLabUI\<close> and \<open>createApp\<close> that create one of the
  objects of the page or put something into it, as they are executed. (The seven
  renderers, the model factory, the clipboard and the widget factory are constructed
  where they are first used and have no statement of their own here.)
\<close>

datatype step =
    Call_createServiceManager IOptions
  | New_CommandRegistry
  | New_Keymap
  | Document_addEventListener
  | New_RenderMime
  | New_DocumentRegistry
  | New_DocumentManager
  | AddModelFactory
  | AddWidgetFactory
  | DocManager_open string
  | New_CommandPalette
  | New_SplitPanel
  | SetStretch widget nat
  | Panel_addWidget widget
  | Widget_attach string
  | Set_onresize
  | AddCommand string
  | Palette_addItem string
  | Keymap_addBinding string

text \<open>
  The fields of the notebook widget that the arrow functions read or write:
  \<open>nbWidget.content.mode\<close>, \<open>nbWidget.context.kernel\<close> and \<open>nbWidget.kernel\<close>.
\<close>

type_synonym widget_fields = "string \<times> IKernel option \<times> IKernel option"

text \<open>
  The page: the controller object, the objects held by the local variables of
  \<open>createApp\<close>, the listeners installed on \<open>document\<close> and \<open>window\<close>, the host
  elements that have a panel attached, and the three fields of the notebook widget
  (the toolkit owns them and they start with any value).
  \<open>calls\<close> lists the calls the arrow functions have made, \<open>trace\<close> the statements
  of the controller that have run, both oldest first.

  \<open>toolkit\<close> is the toolkit as far as it acts on the three fields: given the calls made so
  far, the call being made and the fields as they are, it returns the fields as the call
  leaves them. The toolkit is not part of the example, so this is a parameter of the page.
\<close>

record page =
  jl :: JupyterLab
  commands :: "(string \<times> command) list"
  keymap :: "binding list"
  keydown_listeners :: "closure list"
  rendermime :: "renderer RenderMime option"
  modelFactories :: "model_factory list"
  widgetFactories :: "(widget_factory \<times> widget_factory_options) list"
  docManager :: "DocumentManager option"
  nbWidget :: "string option"
  palette :: "palette_item list"
  panel :: "SplitPanel option"
  stretch :: "(widget \<times> nat) list"
  attached :: "(string \<times> string) list"
  onresize :: "closure option"
  mode :: string
  context_kernel :: "IKernel option"
  panel_kernel :: "IKernel option"
  toolkit :: "ext_call list \<Rightarrow> ext_call \<Rightarrow> widget_fields \<Rightarrow> widget_fields"
  calls :: "ext_call list"
  trace :: "step list"

text \<open>
  A call that is handed the notebook widget or one of its parts: the call is recorded,
  and the mode and the kernels are what the toolkit makes of them.
\<close>

definition ext :: "ext_call \<Rightarrow> page \<Rightarrow> page" where
  "ext c s =
     (case toolkit s (calls s) c (mode s, context_kernel s, panel_kernel s) of
        (m, ck, pk) \<Rightarrow>
          s\<lparr>calls := calls s @ [c], mode := m, context_kernel := ck, panel_kernel := pk\<rparr>)"

text \<open>
  A call that is not handed the notebook widget: \<open>panel.update()\<close> on the split panel,
  \<open>keymap.processKeydownEvent(event)\<close> on the keymap, and \<open>interrupt()\<close> on the kernel
  object, which stays the kernel of the context. The call is recorded.
\<close>

definition logged :: "ext_call \<Rightarrow> page \<Rightarrow> page" where
  "logged c s = s\<lparr>calls := calls s @ [c]\<rparr>"

definition did :: "step \<Rightarrow> page \<Rightarrow> page" where
  "did st s = s\<lparr>trace := trace s @ [st]\<rparr>"

fun run :: "closure \<Rightarrow> page \<Rightarrow> page" where
  "run KeydownListener s = logged Keymap_processKeydownEvent s"
| "run OpenerOpen s = s"
| "run OnResize s = logged Panel_update s"
| "run ExecSave s = ext Context_save s"
| "run ExecInterrupt s =
     (case context_kernel s of
        Some k \<Rightarrow> logged (Kernel_interrupt k) s
      | None \<Rightarrow> s)"
| "run ExecRestart s = ext (Call_restartKernel (panel_kernel s)) s"
| "run ExecSwitchKernel s = ext Call_selectKernelForContext s"
| "run ExecRunAndAdvance s = ext (NotebookActions_runAndAdvance (context_kernel s)) s"
| "run ExecEditMode s = s\<lparr>mode := ''edit''\<rparr>"
| "run ExecCommandMode s = s\<lparr>mode := ''command''\<rparr>"
| "run ExecSelectBelow s = ext NotebookActions_selectBelow s"
| "run ExecSelectAbove s = ext NotebookActions_selectAbove s"
| "run ExecExtendAbove s = ext NotebookActions_extendSelectionAbove s"
| "run ExecExtendBelow s = ext NotebookActions_extendSelectionBelow s"
| "run ExecMerge s = ext NotebookActions_mergeCells s"
| "run ExecSplit s = ext NotebookActions_splitCell s"
| "run ExecUndo s = ext NotebookActions_undo s"
| "run ExecRedo s = ext NotebookActions_redo s"

subsection \<open>The rendering registry\<close>

text \<open>
  The two nested loops over \<open>transformers\<close> and over the mime-types of each transformer:
  each mime-type is assigned its transformer in \<open>renderers\<close> (an assignment to an
  object property, so a later one replaces an earlier one) and is pushed on \<open>order\<close>.
  The \<open>mimetypes\<close> property of a renderer is declared by the toolkit and is a parameter.
\<close>

fun add_mimetypes ::
  "'r \<Rightarrow> string list \<Rightarrow> (string \<rightharpoonup> 'r) \<times> string list \<Rightarrow> (string \<rightharpoonup> 'r) \<times> string list" where
  "add_mimetypes t [] acc = acc"
| "add_mimetypes t (m # ms) (rs, ord) = add_mimetypes t ms (rs(m \<mapsto> t), ord @ [m])"

fun add_transformers ::
  "('r \<Rightarrow> string list) \<Rightarrow> 'r list \<Rightarrow> (string \<rightharpoonup> 'r) \<times> string list
     \<Rightarrow> (string \<rightharpoonup> 'r) \<times> string list" where
  "add_transformers mimetypes [] acc = acc"
| "add_transformers mimetypes (t # ts) acc =
     add_transformers mimetypes ts (add_mimetypes t (mimetypes t) acc)"

definition build_renderers ::
  "('r \<Rightarrow> string list) \<Rightarrow> 'r list \<Rightarrow> (string \<rightharpoonup> 'r) \<times> string list" where
  "build_renderers mimetypes ts = add_transformers mimetypes ts (Map.empty, [])"

definition transformers :: "renderer list" where
  "transformers =
     [JavascriptRenderer, MarkdownRenderer, HTMLRenderer, ImageRenderer,
      SVGRenderer, LatexRenderer, TextRenderer]"

subsection \<open>The statements of \<open>createApp\<close>\<close>

text \<open>
  The command registry, the keymap, the palette and the document registry of the toolkit
  are the lists of what has been added to them, in the order of the calls; a
  constructor call starts with the empty list. Each statement also adds itself to
  the trace.
\<close>

definition CommandRegistry_new :: "page \<Rightarrow> page" where
  "CommandRegistry_new s = did New_CommandRegistry (s\<lparr>commands := []\<rparr>)"

definition Keymap_new :: "page \<Rightarrow> page" where
  "Keymap_new s = did New_Keymap (s\<lparr>keymap := []\<rparr>)"

definition addEventListener_keydown :: "closure \<Rightarrow> page \<Rightarrow> page" where
  "addEventListener_keydown f s =
     did Document_addEventListener (s\<lparr>keydown_listeners := keydown_listeners s @ [f]\<rparr>)"

definition RenderMime_new :: "(string \<rightharpoonup> renderer) \<times> string list \<Rightarrow> page \<Rightarrow> page" where
  "RenderMime_new ro s =
     did New_RenderMime
       (s\<lparr>rendermime :=
           Some \<lparr>renderers = fst ro, order = snd ro, sanitizer = defaultSanitizer\<rparr>\<rparr>)"

definition DocumentRegistry_new :: "page \<Rightarrow> page" where
  "DocumentRegistry_new s =
     did New_DocumentRegistry (s\<lparr>modelFactories := [], widgetFactories := []\<rparr>)"

definition DocumentManager_new :: "IServiceManager \<Rightarrow> closure \<Rightarrow> page \<Rightarrow> page" where
  "DocumentManager_new mgr opn s =
     did New_DocumentManager (s\<lparr>docManager := Some \<lparr>manager = mgr, opener = opn\<rparr>\<rparr>)"

definition addModelFactory :: "model_factory \<Rightarrow> page \<Rightarrow> page" where
  "addModelFactory f s = did AddModelFactory (s\<lparr>modelFactories := modelFactories s @ [f]\<rparr>)"

definition addWidgetFactory :: "widget_factory \<Rightarrow> widget_factory_options \<Rightarrow> page \<Rightarrow> page" where
  "addWidgetFactory f opts s =
     did AddWidgetFactory (s\<lparr>widgetFactories := widgetFactories s @ [(f, opts)]\<rparr>)"

definition docManager_open :: "string \<Rightarrow> page \<Rightarrow> page" where
  "docManager_open path s = did (DocManager_open path) (s\<lparr>nbWidget := Some path\<rparr>)"

definition CommandPalette_new :: "page \<Rightarrow> page" where
  "CommandPalette_new s = did New_CommandPalette (s\<lparr>palette := []\<rparr>)"

definition SplitPanel_new :: "page \<Rightarrow> page" where
  "SplitPanel_new s =
     did New_SplitPanel
       (s\<lparr>panel := Some \<lparr>panel_id = ''main'', orientation = ''horizontal'',
                           spacing = 0, children = []\<rparr>\<rparr>)"

definition setStretch :: "widget \<Rightarrow> nat \<Rightarrow> page \<Rightarrow> page" where
  "setStretch w n s = did (SetStretch w n) (s\<lparr>stretch := (w, n) # stretch s\<rparr>)"

definition panel_addWidget :: "widget \<Rightarrow> page \<Rightarrow> page" where
  "panel_addWidget w s =
     did (Panel_addWidget w)
       (s\<lparr>panel := map_option (\<lambda>p. p\<lparr>children := children p @ [w]\<rparr>) (panel s)\<rparr>)"

definition Widget_attach_panel :: "string \<Rightarrow> page \<Rightarrow> page" where
  "Widget_attach_panel host s =
     did (Widget_attach host)
       (case panel s of
          None \<Rightarrow> s
        | Some p \<Rightarrow> s\<lparr>attached := attached s @ [(panel_id p, host)]\<rparr>)"

definition set_onresize :: "closure \<Rightarrow> page \<Rightarrow> page" where
  "set_onresize f s = did Set_onresize (s\<lparr>onresize := Some f\<rparr>)"

definition addCommand :: "string \<Rightarrow> command \<Rightarrow> page \<Rightarrow> page" where
  "addCommand i c s = did (AddCommand i) (s\<lparr>commands := commands s @ [(i, c)]\<rparr>)"

definition palette_addItem :: "string \<Rightarrow> string \<Rightarrow> page \<Rightarrow> page" where
  "palette_addItem cat cmd s =
     did (Palette_addItem cmd)
       (s\<lparr>palette := palette s @ [\<lparr>item_command = cmd, item_category = cat\<rparr>]\<rparr>)"

definition keymap_addBinding :: "binding \<Rightarrow> page \<Rightarrow> page" where
  "keymap_addBinding b s = did (Keymap_addBinding (command b)) (s\<lparr>keymap := keymap s @ [b]\<rparr>)"

text \<open>The array literal \<open>bindings\<close> of \<open>createApp\<close>.\<close>

definition bindings :: "binding list" where
  "bindings =
     [\<lparr>selector = ''.jp-Notebook'', keys = [''Shift Enter''],
       command = runAndAdvance cmdIds\<rparr>,
      \<lparr>selector = ''.jp-Notebook'', keys = [''Accel S''],
       command = save cmdIds\<rparr>,
      \<lparr>selector = ''.jp-Notebook.jp-mod-commandMode'', keys = [''I'', ''I''],
       command = interrupt cmdIds\<rparr>,
      \<lparr>selector = ''.jp-Notebook.jp-mod-commandMode'', keys = [''0'', ''0''],
       command = restart cmdIds\<rparr>,
      \<lparr>selector = ''.jp-Notebook.jp-mod-commandMode'', keys = [''Enter''],
       command = editMode cmdIds\<rparr>,
      \<lparr>selector = ''.jp-Notebook.jp-mod-editMode'', keys = [''Escape''],
       command = commandMode cmdIds\<rparr>,
      \<lparr>selector = ''.jp-Notebook.jp-mod-commandMode'', keys = [''Shift M''],
       command = merge cmdIds\<rparr>,
      \<lparr>selector = ''.jp-Notebook.jp-mod-editMode'', keys = [''Ctrl Shift -''],
       command = split cmdIds\<rparr>,
      \<lparr>selector = ''.jp-Notebook.jp-mod-commandMode'', keys = [''J''],
       command = selectBelow cmdIds\<rparr>,
      \<lparr>selector = ''.jp-Notebook.jp-mod-commandMode'', keys = [''ArrowDown''],
       command = selectBelow cmdIds\<rparr>,
      \<lparr>selector = ''.jp-Notebook.jp-mod-commandMode'', keys = [''K''],
       command = selectAbove cmdIds\<rparr>,
      \<lparr>selector = ''.jp-Notebook.jp-mod-commandMode'', keys = [''ArrowUp''],
       command = selectAbove cmdIds\<rparr>,
      \<lparr>selector = ''.jp-Notebook.jp-mod-commandMode'', keys = [''Shift K''],
       command = extendAbove cmdIds\<rparr>,
      \<lparr>selector = ''.jp-Notebook.jp-mod-commandMode'', keys = [''Shift J''],
       command = extendBelow cmdIds\<rparr>,
      \<lparr>selector = ''.jp-Notebook.jp-mod-commandMode'', keys = [''Z''],
       command = undo cmdIds\<rparr>,
      \<lparr>selector = ''.jp-Notebook.jp-mod-commandMode'', keys = [''Y''],
       command = redo cmdIds\<rparr>]"

text \<open>
  \<open>createApp\<close> in four parts, in the order of the source: the objects up to the
  opened notebook widget, the layout, the command registrations, and the palette items and
  key bindings.
\<close>

definition create_objects :: "(renderer \<Rightarrow> string list) \<Rightarrow> IServiceManager \<Rightarrow> page \<Rightarrow> page" where
  "create_objects mimetypes mgr s0 =
     (let s1 = CommandRegistry_new s0;
          s2 = Keymap_new s1;
          s3 = addEventListener_keydown KeydownListener s2;
          s4 = RenderMime_new (build_renderers mimetypes transformers) s3;
          s5 = DocumentRegistry_new s4;
          s6 = DocumentManager_new mgr OpenerOpen s5;
          s7 = addModelFactory NotebookModelFactory s6;
          s8 = addWidgetFactory NotebookWidgetFactory
                 \<lparr>displayName = ''Notebook'', modelName = ''notebook'',
                  fileExtensions = [''.ipynb''], defaultFor = [''.ipynb''],
                  preferKernel = True, canStartKernel = True\<rparr> s7;
          s9 = docManager_open (NOTEBOOK (jl s8)) s8
      in CommandPalette_new s9)"

definition create_layout :: "page \<Rightarrow> page" where
  "create_layout s0 =
     (let s1 = SplitPanel_new s0;
          s2 = setStretch PaletteWidget 0 s1;
          s3 = panel_addWidget PaletteWidget s2;
          s4 = panel_addWidget NotebookWidget s3;
          s5 = Widget_attach_panel (div_id (jl s4)) s4;
          s6 = setStretch NotebookWidget 1 s5
      in set_onresize OnResize s6)"

definition add_commands :: "page \<Rightarrow> page" where
  "add_commands s0 =
     (let s1 = addCommand (save cmdIds) \<lparr>label = ''Save'', execute = ExecSave\<rparr> s0;
          s2 = addCommand (interrupt cmdIds)
                 \<lparr>label = ''Interrupt'', execute = ExecInterrupt\<rparr> s1;
          s3 = addCommand (restart cmdIds)
                 \<lparr>label = ''Restart Kernel'', execute = ExecRestart\<rparr> s2;
          s4 = addCommand (switchKernel cmdIds)
                 \<lparr>label = ''Switch Kernel'', execute = ExecSwitchKernel\<rparr> s3;
          s5 = addCommand (runAndAdvance cmdIds)
                 \<lparr>label = ''Run and Advance'', execute = ExecRunAndAdvance\<rparr> s4;
          s6 = addCommand (editMode cmdIds)
                 \<lparr>label = ''Edit Mode'', execute = ExecEditMode\<rparr> s5;
          s7 = addCommand (commandMode cmdIds)
                 \<lparr>label = ''Command Mode'', execute = ExecCommandMode\<rparr> s6;
          s8 = addCommand (selectBelow cmdIds)
                 \<lparr>label = ''Select Below'', execute = ExecSelectBelow\<rparr> s7;
          s9 = addCommand (selectAbove cmdIds)
                 \<lparr>label = ''Select Above'', execute = ExecSelectAbove\<rparr> s8;
          s10 = addCommand (extendAbove cmdIds)
                  \<lparr>label = ''Extend Above'', execute = ExecExtendAbove\<rparr> s9;
          s11 = addCommand (extendBelow cmdIds)
                  \<lparr>label = ''Extend Below'', execute = ExecExtendBelow\<rparr> s10;
          s12 = addCommand (merge cmdIds)
                  \<lparr>label = ''Merge Cells'', execute = ExecMerge\<rparr> s11;
          s13 = addCommand (split cmdIds)
                  \<lparr>label = ''Split Cell'', execute = ExecSplit\<rparr> s12;
          s14 = addCommand (undo cmdIds) \<lparr>label = ''Undo'', execute = ExecUndo\<rparr> s13
      in addCommand (redo cmdIds) \<lparr>label = ''Redo'', execute = ExecRedo\<rparr> s14)"

definition add_palette_items :: "page \<Rightarrow> page" where
  "add_palette_items s0 =
     (let s1 = fold (palette_addItem ''Notebook Operations'')
                 [interrupt cmdIds, restart cmdIds, editMode cmdIds, commandMode cmdIds,
                  switchKernel cmdIds] s0
      in fold (palette_addItem ''Notebook Cell Operations'')
           [runAndAdvance cmdIds, split cmdIds, merge cmdIds, selectAbove cmdIds,
            selectBelow cmdIds, extendAbove cmdIds, extendBelow cmdIds, undo cmdIds,
            redo cmdIds] s1)"

definition add_bindings :: "page \<Rightarrow> page" where
  "add_bindings s = fold keymap_addBinding bindings s"

definition createApp :: "(renderer \<Rightarrow> string list) \<Rightarrow> IServiceManager \<Rightarrow> page \<Rightarrow> page" where
  "createApp mimetypes mgr s =
     add_bindings (add_palette_items (add_commands (create_layout
       (create_objects mimetypes mgr s))))"

subsection \<open>Mounting\<close>

text \<open>
  \<open>createServiceManager\<close> returns a promise; how it settles is decided outside the
  example and is a parameter. \<open>then\<close> is given a fulfilment callback only, so the callback
  runs when the promise is fulfilled and nothing runs otherwise.
\<close>

datatype 'a promise = Fulfilled 'a | Rejected string | Pending

definition embedJupyterLabUI ::
  "(renderer \<Rightarrow> string list) \<Rightarrow> IServiceManager promise \<Rightarrow> page \<Rightarrow> page" where
  "embedJupyterLabUI mimetypes p s =
     (let s1 = did (Call_createServiceManager (serviceManagerOptions (jl s))) s
      in case p of
           Fulfilled mgr \<Rightarrow> createApp mimetypes mgr s1
         | Rejected e \<Rightarrow> s1
         | Pending \<Rightarrow> s1)"

text \<open>
  A page on which nothing has been mounted yet. The toolkit, the mode of the notebook
  widget, the kernel of its context and the kernel of the panel are parameters here and
  of \<open>main\<close>, as are the mime-types of the renderers and the way the promise settles.
\<close>

definition new_page ::
  "JupyterLab \<Rightarrow> (ext_call list \<Rightarrow> ext_call \<Rightarrow> widget_fields \<Rightarrow> widget_fields) \<Rightarrow> string
     \<Rightarrow> IKernel option \<Rightarrow> IKernel option \<Rightarrow> page" where
  "new_page j tk md ck pk =
     \<lparr>jl = j, commands = [], keymap = [], keydown_listeners = [], rendermime = None,
      modelFactories = [], widgetFactories = [], docManager = None, nbWidget = None,
      palette = [], panel = None, stretch = [], attached = [], onresize = None,
      mode = md, context_kernel = ck, panel_kernel = pk, toolkit = tk, calls = [],
      trace = []\<rparr>"

definition main ::
  "(renderer \<Rightarrow> string list) \<Rightarrow> IServiceManager promise
     \<Rightarrow> (ext_call list \<Rightarrow> ext_call \<Rightarrow> widget_fields \<Rightarrow> widget_fields) \<Rightarrow> string
     \<Rightarrow> IKernel option \<Rightarrow> IKernel option \<Rightarrow> page" where
  "main mimetypes p tk md ck pk =
     embedJupyterLabUI mimetypes p
       (new_page (JupyterLab_new ''jupyter-notebook-wrapper'' ''test.ipynb'' None
                    (Some ''http://localhost:8889'')) tk md ck pk)"

subsection \<open>Events after mounting\<close>

text \<open>
  The registry runs the \<open>execute\<close> function stored under an id; for an id that was never
  added there is nothing to run. A resize event runs the function held by
  \<open>window.onresize\<close>, a keydown event the listeners installed on \<open>document\<close>. What the
  keymap of the toolkit then does with a keydown event, matching it against the
  bindings and executing a command, is not part of the example; the execution it may
  lead to is the event \<open>Execute\<close>.
\<close>

definition CommandRegistry_execute :: "string \<Rightarrow> page \<Rightarrow> page option" where
  "CommandRegistry_execute i s =
     (case map_of (commands s) i of
        None \<Rightarrow> None
      | Some c \<Rightarrow> Some (run (execute c) s))"

datatype event = Resize | Keydown | Execute string

fun handle :: "event \<Rightarrow> page \<Rightarrow> page" where
  "handle Resize s = (case onresize s of None \<Rightarrow> s | Some f \<Rightarrow> run f s)"
| "handle Keydown s = fold run (keydown_listeners s) s"
| "handle (Execute i) s =
     (case CommandRegistry_execute i s of None \<Rightarrow> s | Some s' \<Rightarrow> s')"

definition handle_all :: "event list \<Rightarrow> page \<Rightarrow> page" where
  "handle_all es s = fold handle es s"

subsection \<open>Concrete inputs\<close>

text \<open>
  Two declarations of mime-types for the seven renderers, used where a statement is
  evaluated on a concrete page: one without overlap, and one in which the first and
  the last transformer both declare \<open>text/plain\<close>.
\<close>

fun example_mimetypes :: "renderer \<Rightarrow> string list" where
  "example_mimetypes JavascriptRenderer = [''text/javascript'', ''application/javascript'']"
| "example_mimetypes MarkdownRenderer = [''text/markdown'']"
| "example_mimetypes HTMLRenderer = [''text/html'']"
| "example_mimetypes ImageRenderer = [''image/png'', ''image/jpeg'', ''image/gif'']"
| "example_mimetypes SVGRenderer = [''image/svg+xml'']"
| "example_mimetypes LatexRenderer = [''text/latex'']"
| "example_mimetypes TextRenderer = [''text/plain'']"

fun overlapping_mimetypes :: "renderer \<Rightarrow> string list" where
  "overlapping_mimetypes JavascriptRenderer = [''text/plain'']"
| "overlapping_mimetypes TextRenderer = [''text/plain'']"
| "overlapping_mimetypes MarkdownRenderer = []"
| "overlapping_mimetypes HTMLRenderer = []"
| "overlapping_mimetypes ImageRenderer = []"
| "overlapping_mimetypes SVGRenderer = []"
| "overlapping_mimetypes LatexRenderer = []"

definition example_manager :: IServiceManager where
  "example_manager =
     ServiceManager \<lparr>ajaxSettings = None, baseUrl = Some ''http://localhost:8889''\<rparr>"

text \<open>
  A toolkit for the concrete pages: run-and-advance leaves the notebook in edit mode,
  undo leaves it in command mode, and no other call changes the three fields.
\<close>

fun example_toolkit :: "ext_call list \<Rightarrow> ext_call \<Rightarrow> widget_fields \<Rightarrow> widget_fields" where
  "example_toolkit h (NotebookActions_runAndAdvance k) (m, ck, pk) = (''edit'', ck, pk)"
| "example_toolkit h NotebookActions_undo (m, ck, pk) = (''command'', ck, pk)"
| "example_toolkit h c f = f"

text \<open>The page of \<open>main\<close> once the connection is there, with a notebook that has no kernel.\<close>

definition mounted_example :: page where
  "mounted_example =
     main example_mimetypes (Fulfilled example_manager) example_toolkit ''command'' None None"


text \<open>
  \<open>before a b xs\<close>: both \<open>a\<close> and \<open>b\<close> occur in \<open>xs\<close>, and \<open>a\<close> occurs first.
\<close>

fun before :: "'a \<Rightarrow> 'a \<Rightarrow> 'a list \<Rightarrow> bool" where
  "before a b [] = False"
| "before a b (x # xs) =
     (if x = b then False else if x = a then b \<in> set xs else before a b xs)"

section \<open>Properties\<close>

subsection \<open>What \<open>createApp\<close> leaves in each field\<close>

lemmas step_defs = did_def CommandRegistry_new_def Keymap_new_def addEventListener_keydown_def
  RenderMime_new_def DocumentRegistry_new_def DocumentManager_new_def addModelFactory_def
  addWidgetFactory_def docManager_open_def CommandPalette_new_def SplitPanel_new_def
  setStretch_def panel_addWidget_def Widget_attach_panel_def set_onresize_def addCommand_def
  palette_addItem_def keymap_addBinding_def

lemmas part_defs = createApp_def create_objects_def create_layout_def add_commands_def
  add_palette_items_def add_bindings_def

lemma commands_createApp:
  "commands (createApp mt mgr s) =
     [(save cmdIds, \<lparr>label = ''Save'', execute = ExecSave\<rparr>),
      (interrupt cmdIds, \<lparr>label = ''Interrupt'', execute = ExecInterrupt\<rparr>),
      (restart cmdIds, \<lparr>label = ''Restart Kernel'', execute = ExecRestart\<rparr>),
      (switchKernel cmdIds, \<lparr>label = ''Switch Kernel'', execute = ExecSwitchKernel\<rparr>),
      (runAndAdvance cmdIds, \<lparr>label = ''Run and Advance'', execute = ExecRunAndAdvance\<rparr>),
      (editMode cmdIds, \<lparr>label = ''Edit Mode'', execute = ExecEditMode\<rparr>),
      (commandMode cmdIds, \<lparr>label = ''Command Mode'', execute = ExecCommandMode\<rparr>),
      (selectBelow cmdIds, \<lparr>label = ''Select Below'', execute = ExecSelectBelow\<rparr>),
      (selectAbove cmdIds, \<lparr>label = ''Select Above'', execute = ExecSelectAbove\<rparr>),
      (extendAbove cmdIds, \<lparr>label = ''Extend Above'', execute = ExecExtendAbove\<rparr>),
      (extendBelow cmdIds, \<lparr>label = ''Extend Below'', execute = ExecExtendBelow\<rparr>),
      (merge cmdIds, \<lparr>label = ''Merge Cells'', execute = ExecMerge\<rparr>),
      (split cmdIds, \<lparr>label = ''Split Cell'', execute = ExecSplit\<rparr>),
      (undo cmdIds, \<lparr>label = ''Undo'', execute = ExecUndo\<rparr>),
      (redo cmdIds, \<lparr>label = ''Redo'', execute = ExecRedo\<rparr>)]"
  by (simp add: part_defs step_defs bindings_def Let_def)

lemma keymap_createApp: "keymap (createApp mt mgr s) = bindings"
  by (simp add: part_defs step_defs bindings_def Let_def)

lemma palette_createApp:
  "palette (createApp mt mgr s) =
     map (\<lambda>c. \<lparr>item_command = c, item_category = ''Notebook Operations''\<rparr>)
       [interrupt cmdIds, restart cmdIds, editMode cmdIds, commandMode cmdIds,
        switchKernel cmdIds] @
     map (\<lambda>c. \<lparr>item_command = c, item_category = ''Notebook Cell Operations''\<rparr>)
       [runAndAdvance cmdIds, split cmdIds, merge cmdIds, selectAbove cmdIds,
        selectBelow cmdIds, extendAbove cmdIds, extendBelow cmdIds, undo cmdIds,
        redo cmdIds]"
  by (simp add: part_defs step_defs bindings_def Let_def)

lemma onresize_createApp: "onresize (createApp mt mgr s) = Some OnResize"
  by (simp add: part_defs step_defs bindings_def Let_def)

lemma rendermime_createApp:
  "rendermime (createApp mt mgr s) =
     Some \<lparr>renderers = fst (build_renderers mt transformers),
           order = snd (build_renderers mt transformers), sanitizer = defaultSanitizer\<rparr>"
  by (simp add: part_defs step_defs bindings_def Let_def)

lemma trace_createApp:
  "trace (createApp mt mgr s) =
     trace s @
     [New_CommandRegistry, New_Keymap, Document_addEventListener, New_RenderMime,
      New_DocumentRegistry, New_DocumentManager, AddModelFactory, AddWidgetFactory,
      DocManager_open (NOTEBOOK (jl s)), New_CommandPalette, New_SplitPanel,
      SetStretch PaletteWidget 0, Panel_addWidget PaletteWidget,
      Panel_addWidget NotebookWidget, Widget_attach (div_id (jl s)),
      SetStretch NotebookWidget 1, Set_onresize] @
     map AddCommand
       [save cmdIds, interrupt cmdIds, restart cmdIds, switchKernel cmdIds,
        runAndAdvance cmdIds, editMode cmdIds, commandMode cmdIds, selectBelow cmdIds,
        selectAbove cmdIds, extendAbove cmdIds, extendBelow cmdIds, merge cmdIds,
        split cmdIds, undo cmdIds, redo cmdIds] @
     map Palette_addItem
       [interrupt cmdIds, restart cmdIds, editMode cmdIds, commandMode cmdIds,
        switchKernel cmdIds, runAndAdvance cmdIds, split cmdIds, merge cmdIds,
        selectAbove cmdIds, selectBelow cmdIds, extendAbove cmdIds, extendBelow cmdIds,
        undo cmdIds, redo cmdIds] @
     map (\<lambda>b. Keymap_addBinding (command b)) bindings"
  by (simp add: part_defs step_defs bindings_def Let_def)

lemma embed_fulfilled:
  "embedJupyterLabUI mt (Fulfilled mgr) s =
     createApp mt mgr (did (Call_createServiceManager (serviceManagerOptions (jl s))) s)"
  by (simp add: embedJupyterLabUI_def Let_def)


lemma calls_createApp: "calls (createApp mt mgr s) = calls s"
  by (simp add: part_defs step_defs bindings_def Let_def)

lemma mode_createApp: "mode (createApp mt mgr s) = mode s"
  by (simp add: part_defs step_defs bindings_def Let_def)

lemma context_kernel_createApp: "context_kernel (createApp mt mgr s) = context_kernel s"
  by (simp add: part_defs step_defs bindings_def Let_def)

lemma toolkit_createApp: "toolkit (createApp mt mgr s) = toolkit s"
  by (simp add: part_defs step_defs bindings_def Let_def)



lemma mounted_example_eq:
  "mounted_example =
     embedJupyterLabUI example_mimetypes (Fulfilled example_manager)
       (new_page (JupyterLab_new ''jupyter-notebook-wrapper'' ''test.ipynb'' None
                    (Some ''http://localhost:8889'')) example_toolkit ''command'' None None)"
  by (simp add: mounted_example_def main_def)

lemma mounted_example_fields:
  "calls mounted_example = []"
  "mode mounted_example = ''command''"
  "context_kernel mounted_example = None"
  "toolkit mounted_example = example_toolkit"
  by (simp_all add: mounted_example_eq embed_fulfilled calls_createApp mode_createApp
      context_kernel_createApp toolkit_createApp new_page_def did_def)

subsection \<open>The two loops of the rendering registry\<close>

lemma add_mimetypes_eq:
  "add_mimetypes t ms (rs, ord) = ((\<lambda>m. if m \<in> set ms then Some t else rs m), ord @ ms)"
proof (induction ms arbitrary: rs ord)
  case Nil
  show ?case by simp
next
  case (Cons a ms)
  show ?case by (simp add: Cons.IH fun_eq_iff)
qed

lemma find_append_first:
  "find P (xs @ ys) = (case find P xs of None \<Rightarrow> find P ys | Some x \<Rightarrow> Some x)"
  by (induction xs) simp_all

lemma add_transformers_eq:
  "add_transformers mt ts (rs, ord) =
     ((\<lambda>m. case find (\<lambda>t. m \<in> set (mt t)) (rev ts) of Some t \<Rightarrow> Some t | None \<Rightarrow> rs m),
      ord @ concat (map mt ts))"
proof (induction ts arbitrary: rs ord)
  case Nil
  show ?case by simp
next
  case (Cons t ts)
  show ?case
    by (simp add: add_mimetypes_eq Cons.IH fun_eq_iff find_append_first split: option.split)
qed

lemma build_renderers_eq:
  "build_renderers mt ts =
     ((\<lambda>m. find (\<lambda>t. m \<in> set (mt t)) (rev ts)), concat (map mt ts))"
  by (simp add: build_renderers_def add_transformers_eq fun_eq_iff split: option.split)

subsection \<open>What running an arrow function can change\<close>

lemma ext_frame:
  "ext c s =
     s\<lparr>mode := mode (ext c s), context_kernel := context_kernel (ext c s),
       panel_kernel := panel_kernel (ext c s), calls := calls s @ [c]\<rparr>"
  by (simp add: ext_def split: prod.split)

lemma calls_ext: "calls (ext c s) = calls s @ [c]"
  by (simp add: ext_def split: prod.split)

lemma run_frame:
  "run c s =
     s\<lparr>mode := mode (run c s), context_kernel := context_kernel (run c s),
       panel_kernel := panel_kernel (run c s), calls := calls (run c s)\<rparr>"
  by (cases c) (simp_all add: ext_def logged_def split: option.split prod.split)

lemma fold_run_frame:
  "fold run cs s =
     s\<lparr>mode := mode (fold run cs s), context_kernel := context_kernel (fold run cs s),
       panel_kernel := panel_kernel (fold run cs s), calls := calls (fold run cs s)\<rparr>"
proof (induction cs arbitrary: s)
  case Nil
  show ?case by simp
next
  case (Cons c cs)
  have "fold run (c # cs) s = fold run cs (run c s)" by simp
  also have "\<dots> = (run c s)\<lparr>mode := mode (fold run cs (run c s)),
                               context_kernel := context_kernel (fold run cs (run c s)),
                               panel_kernel := panel_kernel (fold run cs (run c s)),
                               calls := calls (fold run cs (run c s))\<rparr>"
    by (rule Cons.IH)
  also have "\<dots> = s\<lparr>mode := mode (fold run cs (run c s)),
                      context_kernel := context_kernel (fold run cs (run c s)),
                      panel_kernel := panel_kernel (fold run cs (run c s)),
                      calls := calls (fold run cs (run c s))\<rparr>"
    by (subst run_frame [of c s]) simp
  finally show ?case by simp
qed

lemma handle_frame:
  "handle e s =
     s\<lparr>mode := mode (handle e s), context_kernel := context_kernel (handle e s),
       panel_kernel := panel_kernel (handle e s), calls := calls (handle e s)\<rparr>"
proof (cases e)
  case Resize
  then show ?thesis using run_frame by (simp split: option.split)
next
  case Keydown
  then show ?thesis using fold_run_frame by simp
next
  case (Execute i)
  then show ?thesis using run_frame
    by (simp add: CommandRegistry_execute_def split: option.split)
qed

lemma handle_all_frame:
  "handle_all es s =
     s\<lparr>mode := mode (handle_all es s), context_kernel := context_kernel (handle_all es s),
       panel_kernel := panel_kernel (handle_all es s), calls := calls (handle_all es s)\<rparr>"
proof (induction es arbitrary: s)
  case Nil
  show ?case by (simp add: handle_all_def)
next
  case (Cons e es)
  have "handle_all (e # es) s = handle_all es (handle e s)" by (simp add: handle_all_def)
  also have "\<dots> = (handle e s)\<lparr>mode := mode (handle_all es (handle e s)),
                                  context_kernel := context_kernel (handle_all es (handle e s)),
                                  panel_kernel := panel_kernel (handle_all es (handle e s)),
                                  calls := calls (handle_all es (handle e s))\<rparr>"
    by (rule Cons.IH)
  also have "\<dots> = s\<lparr>mode := mode (handle_all es (handle e s)),
                      context_kernel := context_kernel (handle_all es (handle e s)),
                      panel_kernel := panel_kernel (handle_all es (handle e s)),
                      calls := calls (handle_all es (handle e s))\<rparr>"
    by (subst handle_frame [of e s]) simp
  finally show ?case by (simp add: handle_all_def)
qed


lemma after_events_onresize: "onresize (handle_all es s) = onresize s"
  by (subst handle_all_frame) simp

lemma after_events_palette: "palette (handle_all es s) = palette s"
  by (subst handle_all_frame) simp










subsection \<open>The command table\<close>

text \<open>
  C1, as the code has it: after mounting, the command registry holds exactly 15 commands
  under 15 different ids, one for each of the 16 symbolic command ids except the id of
  delete cell, which is declared in \<open>cmdIds\<close> and never registered.
\<close>

theorem registry_has_fifteen_commands:
  "length (commands (embedJupyterLabUI mt (Fulfilled mgr) s)) = 15 \<and>
   distinct (map fst (commands (embedJupyterLabUI mt (Fulfilled mgr) s))) \<and>
   set (map fst (commands (embedJupyterLabUI mt (Fulfilled mgr) s))) =
     set cmdIds_values - {deleteCell cmdIds}"
  by (auto simp: embed_fulfilled commands_createApp cmdIds_def cmdIds_values_def)

text \<open>
  C1 as stated (16 commands, one for each symbolic id) fails on the page of \<open>main\<close>:
  the registry does not have 16 entries, and the id of delete cell is one of the symbolic
  ids but not one of the registered ones.
\<close>

theorem registry_lacks_deleteCell:
  "length (commands mounted_example) \<noteq> 16 \<and>
   deleteCell cmdIds \<in> set cmdIds_values \<and>
   deleteCell cmdIds \<notin> set (map fst (commands mounted_example))"
  by (simp add: mounted_example_def main_def embed_fulfilled commands_createApp
      cmdIds_def cmdIds_values_def)

subsection \<open>The key bindings\<close>

text \<open>
  C2: every key binding in the keymap after mounting names a command id that is
  registered in the command registry.
\<close>

theorem bindings_name_registered_commands:
  "b \<in> set (keymap (embedJupyterLabUI mt (Fulfilled mgr) s)) \<Longrightarrow>
   command b \<in> set (map fst (commands (embedJupyterLabUI mt (Fulfilled mgr) s)))"
  by (auto simp: embed_fulfilled commands_createApp keymap_createApp bindings_def cmdIds_def)

text \<open>C2 on the page of \<open>main\<close>, for the binding of \<open>Accel S\<close>.\<close>

theorem bindings_name_registered_commands_witness:
  "\<lparr>selector = ''.jp-Notebook'', keys = [''Accel S''], command = ''notebook:save''\<rparr>
     \<in> set (keymap mounted_example) \<and>
   ''notebook:save'' \<in> set (map fst (commands mounted_example))"
proof -
  let ?b = "\<lparr>selector = ''.jp-Notebook'', keys = [''Accel S''], command = ''notebook:save''\<rparr>"
  have h: "?b \<in> set (keymap (embedJupyterLabUI example_mimetypes (Fulfilled example_manager)
      (new_page (JupyterLab_new ''jupyter-notebook-wrapper'' ''test.ipynb'' None
                    (Some ''http://localhost:8889'')) example_toolkit ''command'' None None)))"
    by (simp add: embed_fulfilled keymap_createApp bindings_def cmdIds_def)
  from bindings_name_registered_commands [OF h] h show ?thesis
    by (simp add: mounted_example_eq)
qed

subsection \<open>A connection that fails\<close>


subsection \<open>Renderers that declare the same mime-type\<close>

text \<open>
  C4, as the code has it: the rendering registry is given a map that resolves a
  mime-type to the last transformer of the list that declares it (a later assignment
  replaces an earlier one), and an order that lists the mime-types of all transformers
  in the order of the list, once for every declaration.
\<close>

theorem last_declaring_renderer_wins:
  "\<exists>rm. rendermime (embedJupyterLabUI mt (Fulfilled mgr) s) = Some rm \<and>
        renderers rm m = find (\<lambda>t. m \<in> set (mt t)) (rev transformers) \<and>
        order rm = concat (map mt transformers)"
  by (simp add: embed_fulfilled rendermime_createApp build_renderers_eq)

text \<open>
  C4 as stated (the first declaration wins) fails when the first and the last transformer
  both declare \<open>text/plain\<close>: \<open>JavascriptRenderer\<close> declares it first, and the registry
  resolves it to \<open>TextRenderer\<close>.
\<close>

theorem first_declaring_renderer_loses:
  "hd transformers = JavascriptRenderer \<and>
   ''text/plain'' \<in> set (overlapping_mimetypes JavascriptRenderer) \<and>
   ''text/plain'' \<in> set (overlapping_mimetypes TextRenderer) \<and>
   rendermime (main overlapping_mimetypes (Fulfilled example_manager) example_toolkit
       ''command'' None None) =
     Some \<lparr>renderers = [''text/plain'' \<mapsto> TextRenderer],
           order = [''text/plain'', ''text/plain''], sanitizer = defaultSanitizer\<rparr>"
  by (simp add: main_def embed_fulfilled rendermime_createApp build_renderers_def
      transformers_def)

subsection \<open>Interrupt without a kernel\<close>

text \<open>
  C5: on a page whose registry is the one set up by mounting and whose document
  context has no kernel, executing the interrupt command runs its action, the presence
  check fails, and the page is left exactly as it was: no call is made and nothing
  changes.
\<close>

theorem interrupt_without_kernel_is_noop:
  "commands s = commands (embedJupyterLabUI mt (Fulfilled mgr) s0) \<Longrightarrow>
   context_kernel s = None \<Longrightarrow>
   CommandRegistry_execute (interrupt cmdIds) s = Some s \<and>
   handle (Execute (interrupt cmdIds)) s = s"
  by (simp add: CommandRegistry_execute_def embed_fulfilled commands_createApp cmdIds_def)

text \<open>C5 on the page of \<open>main\<close>, whose notebook has no kernel.\<close>

theorem interrupt_without_kernel_is_noop_witness:
  "context_kernel mounted_example = None \<and>
   CommandRegistry_execute (interrupt cmdIds) mounted_example = Some mounted_example \<and>
   handle (Execute (interrupt cmdIds)) mounted_example = mounted_example"
proof -
  have c: "commands mounted_example =
      commands (embedJupyterLabUI example_mimetypes (Fulfilled example_manager)
        (new_page (JupyterLab_new ''jupyter-notebook-wrapper'' ''test.ipynb'' None
                    (Some ''http://localhost:8889'')) example_toolkit ''command'' None None))"
    by (simp add: mounted_example_eq)
  have k: "context_kernel mounted_example = None"
    by (rule mounted_example_fields)
  from interrupt_without_kernel_is_noop [OF c k] k show ?thesis
    by simp
qed

subsection \<open>What each command does\<close>

text \<open>
  C6, as the code has it: on a page whose registry is the one set up by mounting, each
  of the 15 registered commands does one thing. Save, restart, switch kernel,
  run-and-advance, the four selection commands, merge, split, undo and redo make exactly
  one call, the one that belongs to the command; such a call is recorded, the mode and
  the kernels of the notebook widget are afterwards what the toolkit made of them, and
  nothing else in the page changes. Interrupt makes one call when the context has a
  kernel and none when it has not. Edit mode and command mode make no call; they write
  the mode of the notebook widget. The id of delete cell is not registered, so there is
  nothing to execute under it.
\<close>

theorem effect_of_each_command:
  assumes "commands s = commands (embedJupyterLabUI mt (Fulfilled mgr) s0)"
  shows
  "CommandRegistry_execute (save cmdIds) s = Some (ext Context_save s) \<and>
   CommandRegistry_execute (interrupt cmdIds) s =
     Some (case context_kernel s of
             Some k \<Rightarrow> s\<lparr>calls := calls s @ [Kernel_interrupt k]\<rparr>
           | None \<Rightarrow> s) \<and>
   CommandRegistry_execute (restart cmdIds) s =
     Some (ext (Call_restartKernel (panel_kernel s)) s) \<and>
   CommandRegistry_execute (switchKernel cmdIds) s =
     Some (ext Call_selectKernelForContext s) \<and>
   CommandRegistry_execute (runAndAdvance cmdIds) s =
     Some (ext (NotebookActions_runAndAdvance (context_kernel s)) s) \<and>
   CommandRegistry_execute (editMode cmdIds) s = Some (s\<lparr>mode := ''edit''\<rparr>) \<and>
   CommandRegistry_execute (commandMode cmdIds) s = Some (s\<lparr>mode := ''command''\<rparr>) \<and>
   CommandRegistry_execute (selectBelow cmdIds) s = Some (ext NotebookActions_selectBelow s) \<and>
   CommandRegistry_execute (selectAbove cmdIds) s = Some (ext NotebookActions_selectAbove s) \<and>
   CommandRegistry_execute (extendAbove cmdIds) s =
     Some (ext NotebookActions_extendSelectionAbove s) \<and>
   CommandRegistry_execute (extendBelow cmdIds) s =
     Some (ext NotebookActions_extendSelectionBelow s) \<and>
   CommandRegistry_execute (merge cmdIds) s = Some (ext NotebookActions_mergeCells s) \<and>
   CommandRegistry_execute (split cmdIds) s = Some (ext NotebookActions_splitCell s) \<and>
   CommandRegistry_execute (undo cmdIds) s = Some (ext NotebookActions_undo s) \<and>
   CommandRegistry_execute (redo cmdIds) s = Some (ext NotebookActions_redo s) \<and>
   CommandRegistry_execute (deleteCell cmdIds) s = None \<and>
   ext c s =
     s\<lparr>mode := mode (ext c s), context_kernel := context_kernel (ext c s),
       panel_kernel := panel_kernel (ext c s), calls := calls s @ [c]\<rparr> \<and>
   (mode (ext c s), context_kernel (ext c s), panel_kernel (ext c s)) =
     toolkit s (calls s) c (mode s, context_kernel s, panel_kernel s)"
proof -
  have f: "ext c s =
     s\<lparr>mode := mode (ext c s), context_kernel := context_kernel (ext c s),
       panel_kernel := panel_kernel (ext c s), calls := calls s @ [c]\<rparr>"
    by (rule ext_frame)
  have g: "(mode (ext c s), context_kernel (ext c s), panel_kernel (ext c s)) =
     toolkit s (calls s) c (mode s, context_kernel s, panel_kernel s)"
    by (simp add: ext_def split: prod.split)
  have h: "commands s = commands (createApp mt mgr
      (did (Call_createServiceManager (serviceManagerOptions (jl s0))) s0))"
    using assms by (simp add: embed_fulfilled)
  have x: "CommandRegistry_execute (save cmdIds) s = Some (ext Context_save s) \<and>
   CommandRegistry_execute (interrupt cmdIds) s =
     Some (case context_kernel s of
             Some k \<Rightarrow> s\<lparr>calls := calls s @ [Kernel_interrupt k]\<rparr>
           | None \<Rightarrow> s) \<and>
   CommandRegistry_execute (restart cmdIds) s =
     Some (ext (Call_restartKernel (panel_kernel s)) s) \<and>
   CommandRegistry_execute (switchKernel cmdIds) s =
     Some (ext Call_selectKernelForContext s) \<and>
   CommandRegistry_execute (runAndAdvance cmdIds) s =
     Some (ext (NotebookActions_runAndAdvance (context_kernel s)) s) \<and>
   CommandRegistry_execute (editMode cmdIds) s = Some (s\<lparr>mode := ''edit''\<rparr>) \<and>
   CommandRegistry_execute (commandMode cmdIds) s = Some (s\<lparr>mode := ''command''\<rparr>) \<and>
   CommandRegistry_execute (selectBelow cmdIds) s = Some (ext NotebookActions_selectBelow s) \<and>
   CommandRegistry_execute (selectAbove cmdIds) s = Some (ext NotebookActions_selectAbove s) \<and>
   CommandRegistry_execute (extendAbove cmdIds) s =
     Some (ext NotebookActions_extendSelectionAbove s) \<and>
   CommandRegistry_execute (extendBelow cmdIds) s =
     Some (ext NotebookActions_extendSelectionBelow s) \<and>
   CommandRegistry_execute (merge cmdIds) s = Some (ext NotebookActions_mergeCells s) \<and>
   CommandRegistry_execute (split cmdIds) s = Some (ext NotebookActions_splitCell s) \<and>
   CommandRegistry_execute (undo cmdIds) s = Some (ext NotebookActions_undo s) \<and>
   CommandRegistry_execute (redo cmdIds) s = Some (ext NotebookActions_redo s) \<and>
   CommandRegistry_execute (deleteCell cmdIds) s = None"
    by (simp add: h CommandRegistry_execute_def commands_createApp cmdIds_def
      logged_def split: option.split)
  from x f g show ?thesis by blast
qed

text \<open>
  C6 on the page of \<open>main\<close>, for run-and-advance, after which the example toolkit leaves
  the notebook in edit mode, and for delete cell.
\<close>

theorem effect_of_each_command_witness:
  "CommandRegistry_execute (runAndAdvance cmdIds) mounted_example =
     Some (ext (NotebookActions_runAndAdvance None) mounted_example) \<and>
   calls (ext (NotebookActions_runAndAdvance None) mounted_example) =
     [NotebookActions_runAndAdvance None] \<and>
   mode (ext (NotebookActions_runAndAdvance None) mounted_example) = ''edit'' \<and>
   CommandRegistry_execute (deleteCell cmdIds) mounted_example = None"
proof -
  have c: "commands mounted_example =
      commands (embedJupyterLabUI example_mimetypes (Fulfilled example_manager)
        (new_page (JupyterLab_new ''jupyter-notebook-wrapper'' ''test.ipynb'' None
                    (Some ''http://localhost:8889'')) example_toolkit ''command'' None None))"
    by (simp add: mounted_example_eq)
  from effect_of_each_command [OF c, of "NotebookActions_runAndAdvance None"] show ?thesis
    by (simp add: mounted_example_fields calls_ext)
qed

text \<open>
  C6 as stated (each of the 16 ids makes exactly one call) fails on the page of
  \<open>main\<close>, whose notebook has no kernel: executing interrupt leaves the list of
  calls empty, and the id of delete cell has no command to execute.
\<close>

theorem interrupt_makes_no_call:
  "interrupt cmdIds \<in> set cmdIds_values \<and>
   calls (handle (Execute (interrupt cmdIds)) mounted_example) = [] \<and>
   deleteCell cmdIds \<in> set cmdIds_values \<and>
   CommandRegistry_execute (deleteCell cmdIds) mounted_example = None"
proof -
  have i: "map_of (commands mounted_example) (interrupt cmdIds) =
      Some \<lparr>label = ''Interrupt'', execute = ExecInterrupt\<rparr>"
    by (simp add: mounted_example_eq embed_fulfilled commands_createApp cmdIds_def)
  have d: "map_of (commands mounted_example) (deleteCell cmdIds) = None"
    by (simp add: mounted_example_eq embed_fulfilled commands_createApp cmdIds_def)
  show ?thesis
    by (simp add: i d CommandRegistry_execute_def mounted_example_fields cmdIds_values_def)
qed

subsection \<open>Resizing the window\<close>

text \<open>
  C9: on the mounted page, and after any events handled since, a resize event makes
  exactly one call, the layout update of the panel, and changes nothing else.
\<close>

theorem resize_updates_panel_once:
  "handle Resize (handle_all es (embedJupyterLabUI mt (Fulfilled mgr) s0)) =
     (handle_all es (embedJupyterLabUI mt (Fulfilled mgr) s0))
       \<lparr>calls := calls (handle_all es (embedJupyterLabUI mt (Fulfilled mgr) s0)) @
                   [Panel_update]\<rparr>"
  by (simp add: after_events_onresize embed_fulfilled onresize_createApp logged_def)

subsection \<open>After mounting\<close>




subsection \<open>The order of mounting\<close>

text \<open>
  C8, as the code has it: mounting asks for the connection and runs nothing else while
  the promise is pending. Once it is fulfilled, \<open>createApp\<close> runs in this order: the command
  registry and the keymap are constructed and the keydown listener installed; the
  rendering registry is built; the document registry and manager are built and the
  factories added; the notebook is opened; the palette is constructed; the panel is
  built, filled and attached to the host element, and the resize handler installed; then
  the 15 commands are registered, the 14 palette items added and, last, the 16 key
  bindings added.
\<close>

theorem mounting_order:
  "trace (embedJupyterLabUI mt (Fulfilled mgr) s) =
     trace s @
     [Call_createServiceManager (serviceManagerOptions (jl s)),
      New_CommandRegistry, New_Keymap, Document_addEventListener, New_RenderMime,
      New_DocumentRegistry, New_DocumentManager, AddModelFactory, AddWidgetFactory,
      DocManager_open (NOTEBOOK (jl s)), New_CommandPalette, New_SplitPanel,
      SetStretch PaletteWidget 0, Panel_addWidget PaletteWidget,
      Panel_addWidget NotebookWidget, Widget_attach (div_id (jl s)),
      SetStretch NotebookWidget 1, Set_onresize] @
     map AddCommand
       [save cmdIds, interrupt cmdIds, restart cmdIds, switchKernel cmdIds,
        runAndAdvance cmdIds, editMode cmdIds, commandMode cmdIds, selectBelow cmdIds,
        selectAbove cmdIds, extendAbove cmdIds, extendBelow cmdIds, merge cmdIds,
        split cmdIds, undo cmdIds, redo cmdIds] @
     map Palette_addItem
       [interrupt cmdIds, restart cmdIds, editMode cmdIds, commandMode cmdIds,
        switchKernel cmdIds, runAndAdvance cmdIds, split cmdIds, merge cmdIds,
        selectAbove cmdIds, selectBelow cmdIds, extendAbove cmdIds, extendBelow cmdIds,
        undo cmdIds, redo cmdIds] @
     map (\<lambda>b. Keymap_addBinding (command b)) bindings \<and>
   trace (embedJupyterLabUI mt Pending s) =
     trace s @ [Call_createServiceManager (serviceManagerOptions (jl s))]"
  by (simp add: embed_fulfilled trace_createApp did_def embedJupyterLabUI_def)

text \<open>
  C8 as stated fails on the page of \<open>main\<close>: the panel is attached before the first
  command is registered and the last statement adds a key binding; the command registry
  is constructed before the notebook is opened, and the keymap before the palette.
\<close>

theorem panel_is_not_attached_last:
  "before (Widget_attach ''jupyter-notebook-wrapper'') (AddCommand (save cmdIds))
     (trace mounted_example) \<and>
   before New_CommandRegistry (DocManager_open ''test.ipynb'') (trace mounted_example) \<and>
   before New_Keymap New_CommandPalette (trace mounted_example) \<and>
   last (trace mounted_example) = Keymap_addBinding (redo cmdIds)"
  by (simp add: mounted_example_eq embed_fulfilled trace_createApp did_def new_page_def
      JupyterLab_new_def bindings_def cmdIds_def)

subsection \<open>The palette\<close>

text \<open>
  C10: after mounting, and after any events handled since, the palette holds exactly
  14 items in the two categories \<open>Notebook Operations\<close> (5 items) and
  \<open>Notebook Cell Operations\<close> (9 items), and neither the id of save nor the id of delete
  cell is among them.
\<close>

theorem palette_has_fourteen_items:
  "let p = palette (handle_all es (embedJupyterLabUI mt (Fulfilled mgr) s))
   in length p = 14 \<and>
      length (filter (\<lambda>i. item_category i = ''Notebook Operations'') p) = 5 \<and>
      length (filter (\<lambda>i. item_category i = ''Notebook Cell Operations'') p) = 9 \<and>
      set (map item_category p) = {''Notebook Operations'', ''Notebook Cell Operations''} \<and>
      save cmdIds \<notin> set (map item_command p) \<and>
      deleteCell cmdIds \<notin> set (map item_command p)"
  by (auto simp: Let_def after_events_palette embed_fulfilled palette_createApp cmdIds_def)

end
